theory Spec2Isabelle
  imports Main "HOL-Library.Sublist"
begin

section \<open>The entry patcher of \<open>scripts/live-image-post-update-version.py\<close>\<close>

text \<open>
  The script lists \<open><root>/boot/loader/entries/\<close>, reads the single file found there,
  appends \<open>rootwait\<close> to its last line, removes the file and writes it again.
  It is modelled by explicit state passing over a small file system: every function that
  touches the file system takes the state and returns a result together with the new state,
  and every \<open>raise\<close> of the source (its own and those of the library calls) is an
  \<open>Inl\<close> value.

  Texts are HOL strings; a character stands for one code point of the decoded text. The
  decoding and encoding of the file's bytes are outside the model. The platform is POSIX:
  the path separator is \<open>/\<close> and \<open>os.linesep\<close> is a single line feed.
\<close>

subsection \<open>Characters and Python's \<open>repr\<close> of strings\<close>

abbreviation LF :: char where "LF \<equiv> CHR 0x0A"
abbreviation CR :: char where "CR \<equiv> CHR 0x0D"
abbreviation TAB :: char where "TAB \<equiv> CHR 0x09"
abbreviation SQ :: char where "SQ \<equiv> CHR 0x27"
abbreviation DQ :: char where "DQ \<equiv> CHR 0x22"
abbreviation BSL :: char where "BSL \<equiv> CHR 0x5C"
abbreviation SLASH :: char where "SLASH \<equiv> CHR ''/''"

type_synonym path = string

text \<open>One lower-case hexadecimal digit, as \<open>repr\<close> prints it in a \<open>\xNN\<close> escape.\<close>

definition hex_digit :: "nat \<Rightarrow> char" where
  "hex_digit n = ''0123456789abcdef'' ! (n mod 16)"

text \<open>
  \<open>str.isprintable\<close> on the code points of the model: the control characters
  (below \<open>0x20\<close>, and \<open>0x7f\<close> to \<open>0x9f\<close>), the no-break space \<open>0xa0\<close> and the soft
  hyphen \<open>0xad\<close> are not printable.
\<close>

definition printable :: "char \<Rightarrow> bool" where
  "printable c =
     (let n = (of_char c :: nat)
      in 32 \<le> n \<and> \<not> (127 \<le> n \<and> n \<le> 160) \<and> n \<noteq> 173)"

text \<open>
  The quote \<open>repr\<close> chooses: a double quote when the string holds a single quote and no
  double quote, a single quote otherwise.
\<close>

definition repr_quote :: "string \<Rightarrow> char" where
  "repr_quote s = (if SQ \<in> set s \<and> DQ \<notin> set s then DQ else SQ)"

definition repr_char :: "char \<Rightarrow> char \<Rightarrow> string" where
  "repr_char q c =
     (if c = q \<or> c = BSL then [BSL, c]
      else if c = TAB then [BSL, CHR ''t'']
      else if c = LF then [BSL, CHR ''n'']
      else if c = CR then [BSL, CHR ''r'']
      else if \<not> printable c
        then [BSL, CHR ''x'', hex_digit (of_char c div 16), hex_digit (of_char c)]
      else [c])"

definition py_repr :: "string \<Rightarrow> string" where
  "py_repr s = (let q = repr_quote s in [q] @ concat (map (repr_char q) s) @ [q])"

text \<open>\<open>', '.join(...)\<close> over the items of a list.\<close>

fun join_comma :: "string list \<Rightarrow> string" where
  "join_comma [] = []"
| "join_comma [x] = x"
| "join_comma (x # y # ys) = x @ '', '' @ join_comma (y # ys)"

text \<open>The \<open>str\<close> of a list of strings, which \<open>format\<close> substitutes for \<open>{1}\<close>.\<close>

definition py_repr_list :: "string list \<Rightarrow> string" where
  "py_repr_list xs = ''['' @ join_comma (map py_repr xs) @ '']''"

subsection \<open>Errors\<close>

text \<open>
  The exceptions the script can meet, all subclasses of \<open>Exception\<close>: its own two
  \<open>raise Exception(msg)\<close>, the \<open>IndexError\<close> of indexing an empty list, and an
  \<open>OSError\<close> of a file-system call, which carries the platform's description (as in
  \<open>[Errno 2] No such file or directory\<close>) and the path of the call.
\<close>

datatype error = Exception string | IndexError | OSError string path

text \<open>\<open>str(exep)\<close>, which \<open>print\<close> writes.\<close>

fun py_str :: "error \<Rightarrow> string" where
  "py_str (Exception msg) = msg"
| "py_str IndexError = ''list index out of range''"
| "py_str (OSError desc p) = desc @ '': '' @ py_repr p"

subsection \<open>The file system\<close>

text \<open>
  A directory is looked up by the path string given to the call, and holds its entries in
  listing order, each a regular file with its text or something else (a subdirectory).
  A path of a file is split at its last \<open>/\<close> into the directory (the slash included) and
  the name. Paths are compared as strings: no normalisation and no symbolic links.

  \<open>faults\<close> is the environment: \<open>faults fs op p = Some desc\<close> makes the call \<open>op\<close> on
  \<open>p\<close> fail with an \<open>OSError\<close> described by \<open>desc\<close> (no permission, no space, an I/O
  error). A path that names no directory of the model fails like a missing one, and a
  write to a file that has been opened does not fail in this model.
  \<open>calls\<close> records every file-system call made, in order.
\<close>

datatype fs_op = Listdir | OpenRead | Unlink | OpenWrite

datatype node = File string | Directory

record filesystem =
  dirs :: "path \<rightharpoonup> (string \<times> node) list"
  faults :: "fs_op \<Rightarrow> path \<Rightarrow> string option"
  calls :: "(fs_op \<times> path) list"

definition ENOENT :: string where
  "ENOENT = ''[Errno 2] No such file or directory''"

definition EISDIR :: string where
  "EISDIR = ''[Errno 21] Is a directory''"

definition dir_part :: "path \<Rightarrow> path" where
  "dir_part p = rev (dropWhile (\<lambda>c. c \<noteq> SLASH) (rev p))"

definition name_part :: "path \<Rightarrow> string" where
  "name_part p = rev (takeWhile (\<lambda>c. c \<noteq> SLASH) (rev p))"

definition lookup_node :: "filesystem \<Rightarrow> path \<Rightarrow> node option" where
  "lookup_node fs p =
     (case dirs fs (dir_part p) of
        None \<Rightarrow> None
      | Some es \<Rightarrow> map_of es (name_part p))"

text \<open>The text of the regular file at a path, if there is one.\<close>

definition file_text :: "filesystem \<Rightarrow> path \<Rightarrow> string option" where
  "file_text fs p = (case lookup_node fs p of Some (File t) \<Rightarrow> Some t | _ \<Rightarrow> None)"

primrec del_entry :: "string \<Rightarrow> (string \<times> node) list \<Rightarrow> (string \<times> node) list" where
  "del_entry k [] = []"
| "del_entry k (e # es) = (if fst e = k then del_entry k es else e # del_entry k es)"

text \<open>Replace the entry of a name where it stands, or add it at the end.\<close>

primrec set_entry :: "string \<Rightarrow> node \<Rightarrow> (string \<times> node) list \<Rightarrow> (string \<times> node) list" where
  "set_entry k v [] = [(k, v)]"
| "set_entry k v (e # es) = (if fst e = k then (k, v) # es else e # set_entry k v es)"

definition logged :: "fs_op \<Rightarrow> path \<Rightarrow> filesystem \<Rightarrow> filesystem" where
  "logged op p fs = fs\<lparr>calls := calls fs @ [(op, p)]\<rparr>"

text \<open>\<open>os.listdir(p)\<close>: the names in the directory.\<close>

definition os_listdir :: "path \<Rightarrow> filesystem \<Rightarrow> (error + string list) \<times> filesystem" where
  "os_listdir p fs =
     (let fs' = logged Listdir p fs in
      case faults fs Listdir p of
        Some desc \<Rightarrow> (Inl (OSError desc p), fs')
      | None \<Rightarrow>
          (case dirs fs p of
             None \<Rightarrow> (Inl (OSError ENOENT p), fs')
           | Some es \<Rightarrow> (Inr (map fst es), fs')))"

text \<open>
  \<open>with open(p, "r") as entry\<close> up to the text the file holds; \<open>readlines\<close> below turns
  it into lines.
\<close>

definition open_read :: "path \<Rightarrow> filesystem \<Rightarrow> (error + string) \<times> filesystem" where
  "open_read p fs =
     (let fs' = logged OpenRead p fs in
      case faults fs OpenRead p of
        Some desc \<Rightarrow> (Inl (OSError desc p), fs')
      | None \<Rightarrow>
          (case lookup_node fs p of
             None \<Rightarrow> (Inl (OSError ENOENT p), fs')
           | Some Directory \<Rightarrow> (Inl (OSError EISDIR p), fs')
           | Some (File t) \<Rightarrow> (Inr t, fs')))"

text \<open>\<open>os.unlink(p)\<close>: the name leaves its directory.\<close>

definition os_unlink :: "path \<Rightarrow> filesystem \<Rightarrow> (error + unit) \<times> filesystem" where
  "os_unlink p fs =
     (let fs' = logged Unlink p fs in
      case faults fs Unlink p of
        Some desc \<Rightarrow> (Inl (OSError desc p), fs')
      | None \<Rightarrow>
          (case dirs fs (dir_part p) of
             None \<Rightarrow> (Inl (OSError ENOENT p), fs')
           | Some es \<Rightarrow>
               (case map_of es (name_part p) of
                  None \<Rightarrow> (Inl (OSError ENOENT p), fs')
                | Some Directory \<Rightarrow> (Inl (OSError EISDIR p), fs')
                | Some (File t) \<Rightarrow>
                    (Inr (),
                     fs'\<lparr>dirs := (dirs fs)(dir_part p \<mapsto> del_entry (name_part p) es)\<rparr>))))"

text \<open>
  \<open>open(p, "w")\<close>: an existing regular file is truncated, a missing one is created
  empty in its directory.
\<close>

definition open_write :: "path \<Rightarrow> filesystem \<Rightarrow> (error + unit) \<times> filesystem" where
  "open_write p fs =
     (let fs' = logged OpenWrite p fs in
      case faults fs OpenWrite p of
        Some desc \<Rightarrow> (Inl (OSError desc p), fs')
      | None \<Rightarrow>
          (case dirs fs (dir_part p) of
             None \<Rightarrow> (Inl (OSError ENOENT p), fs')
           | Some es \<Rightarrow>
               (case map_of es (name_part p) of
                  Some Directory \<Rightarrow> (Inl (OSError EISDIR p), fs')
                | _ \<Rightarrow>
                    (Inr (),
                     fs'\<lparr>dirs := (dirs fs)(dir_part p \<mapsto>
                        set_entry (name_part p) (File []) es)\<rparr>))))"

text \<open>
  \<open>entry.writelines(entry_content)\<close> and the close of the file opened for writing: the
  lines, one after the other, become the text of the file. Each line feed is written as
  \<open>os.linesep\<close>, a line feed.
\<close>

definition writelines :: "path \<Rightarrow> string list \<Rightarrow> filesystem \<Rightarrow> filesystem" where
  "writelines p ls fs =
     (case dirs fs (dir_part p) of
        None \<Rightarrow> fs
      | Some es \<Rightarrow>
          fs\<lparr>dirs := (dirs fs)(dir_part p \<mapsto> set_entry (name_part p) (File (concat ls)) es)\<rparr>)"

subsection \<open>Reading lines in text mode\<close>

text \<open>
  A file opened with \<open>open(p, "r")\<close> is read with universal newlines: \<open>\r\n\<close> and a
  lone \<open>\r\<close> reach the program as \<open>\n\<close>.
\<close>

fun universal_newlines :: "string \<Rightarrow> string" where
  "universal_newlines [] = []"
| "universal_newlines [c] = (if c = CR then [LF] else [c])"
| "universal_newlines (c # d # ds) =
     (if c = CR \<and> d = LF then LF # universal_newlines ds
      else if c = CR then LF # universal_newlines (d # ds)
      else c # universal_newlines (d # ds))"

text \<open>The text cut after each line feed; the last line has none when the text does not end in one.\<close>

fun split_lines :: "string \<Rightarrow> string list" where
  "split_lines [] = []"
| "split_lines (c # cs) =
     (if c = LF then [c] # split_lines cs
      else (case split_lines cs of
              [] \<Rightarrow> [[c]]
            | l # ls \<Rightarrow> (c # l) # ls))"

definition readlines :: "string \<Rightarrow> string list" where
  "readlines t = split_lines (universal_newlines t)"

subsection \<open>\<open>append_rootwait\<close> and the script's main block\<close>

definition count_message :: "path \<Rightarrow> string list \<Rightarrow> string" where
  "count_message entry_path entry_file =
     ''Unable to find specific entry file in '' @ entry_path @
     '', found '' @ py_repr_list entry_file @ '' instead''"

definition options_message :: string where
  "options_message = ''Last line of entry file is not the kernel commandline options''"

definition append_rootwait :: "path \<Rightarrow> filesystem \<Rightarrow> (error + unit) \<times> filesystem" where
  "append_rootwait path fs0 =
     (let entry_path = path @ ''/boot/loader/entries/'' in
      case os_listdir entry_path fs0 of
        (Inl e, fs1) \<Rightarrow> (Inl e, fs1)
      | (Inr entry_file, fs1) \<Rightarrow>
          if length entry_file \<noteq> 1
          then (Inl (Exception (count_message entry_path entry_file)), fs1)
          else
            let file_full_path = entry_path @ entry_file ! 0 in
            case open_read file_full_path fs1 of
              (Inl e, fs2) \<Rightarrow> (Inl e, fs2)
            | (Inr t, fs2) \<Rightarrow>
                let entry_content = readlines t in
                if entry_content = [] then (Inl IndexError, fs2)
                else
                  let options_line = last entry_content in
                  if \<not> prefix ''options '' options_line
                  then (Inl (Exception options_message), fs2)
                  else
                    let options_line = butlast options_line @ '' rootwait'' @ [LF];
                        entry_content = entry_content[length entry_content - 1 := options_line]
                    in
                    case os_unlink file_full_path fs2 of
                      (Inl e, fs3) \<Rightarrow> (Inl e, fs3)
                    | (Inr u, fs3) \<Rightarrow>
                        (case open_write file_full_path fs3 of
                           (Inl e, fs4) \<Rightarrow> (Inl e, fs4)
                         | (Inr u, fs4) \<Rightarrow>
                             (Inr (), writelines file_full_path entry_content fs4)))"

text \<open>
  The main block: what the process printed on standard output, the argument of
  \<open>sys.exit\<close>, and the file system it leaves.
\<close>

record outcome =
  stdout :: string
  exit_code :: int
  final_fs :: filesystem

definition main :: "string list \<Rightarrow> filesystem \<Rightarrow> outcome" where
  "main argv fs =
     (if length argv \<noteq> 2 then \<lparr>stdout = [], exit_code = - 1, final_fs = fs\<rparr>
      else
        case append_rootwait (argv ! 1) fs of
          (Inl exep, fs') \<Rightarrow> \<lparr>stdout = py_str exep @ [LF], exit_code = - 1, final_fs = fs'\<rparr>
        | (Inr u, fs') \<Rightarrow> \<lparr>stdout = [], exit_code = 0, final_fs = fs'\<rparr>)"

subsection \<open>Image trees for the scenarios\<close>

text \<open>
  The tree under a root whose entries directory holds the given entries, in an environment
  where no call fails and nothing has been called yet.
\<close>

definition image_tree :: "path \<Rightarrow> (string \<times> node) list \<Rightarrow> filesystem" where
  "image_tree root es =
     \<lparr>dirs = [root @ ''/boot/loader/entries/'' \<mapsto> es], faults = (\<lambda>op p. None), calls = []\<rparr>"

text \<open>The same tree on a device where no file can be created.\<close>

definition ENOSPC :: string where
  "ENOSPC = ''[Errno 28] No space left on device''"

definition full_tree :: "path \<Rightarrow> (string \<times> node) list \<Rightarrow> filesystem" where
  "full_tree root es =
     (image_tree root es)\<lparr>faults := (\<lambda>op p. if op = OpenWrite then Some ENOSPC else None)\<rparr>"

section \<open>Properties\<close>

subsection \<open>Paths\<close>

lemma dir_part_append:
  assumes "SLASH \<notin> set n" and "d \<noteq> []" and "last d = SLASH"
  shows "dir_part (d @ n) = d"
proof -
  obtain d' where d: "d = d' @ [SLASH]"
    using assms(2,3) by (metis append_butlast_last_id)
  have "dropWhile (\<lambda>c. c \<noteq> SLASH) (rev n @ SLASH # rev d') = SLASH # rev d'"
    using assms(1) by (intro trans [OF dropWhile_append2]) auto
  then show ?thesis by (simp add: dir_part_def d)
qed

lemma name_part_append:
  assumes "SLASH \<notin> set n" and "d \<noteq> []" and "last d = SLASH"
  shows "name_part (d @ n) = n"
proof -
  obtain d' where d: "d = d' @ [SLASH]"
    using assms(2,3) by (metis append_butlast_last_id)
  have "takeWhile (\<lambda>c. c \<noteq> SLASH) (rev n @ SLASH # rev d') = rev n"
    using assms(1) by (subst takeWhile_append2) auto
  then show ?thesis by (simp add: name_part_def d)
qed

subsection \<open>Lines\<close>

lemma concat_split_lines: "concat (split_lines s) = s"
  by (induction s) (auto split: list.splits)

lemma split_lines_nonempty: "[] \<notin> set (split_lines s)"
  by (induction s) (auto split: list.splits)

lemma split_lines_inner: "l \<in> set (split_lines s) \<Longrightarrow> LF \<notin> set (butlast l)"
  by (induction s arbitrary: l) (auto split: list.splits if_splits)

lemma split_lines_Nil: "split_lines s = [] \<longleftrightarrow> s = []"
  by (cases s) (auto split: list.splits)

lemma split_lines_ended: "l \<in> set (butlast (split_lines s)) \<Longrightarrow> last l = LF"
proof (induction s arbitrary: l)
  case Nil
  then show ?case by simp
next
  case (Cons c s)
  show ?case
  proof (cases "c = LF")
    case True
    with Cons show ?thesis by (auto split: if_splits)
  next
    case False
    show ?thesis
    proof (cases "split_lines s")
      case Nil
      with False Cons.prems show ?thesis by simp
    next
      case (Cons k ks)
      have k: "k \<noteq> []" using split_lines_nonempty [of s] Cons by auto
      from False Cons Cons.prems have "ks \<noteq> []" by (auto split: if_splits)
      with False Cons Cons.prems have "l = c # k \<or> l \<in> set (butlast ks)" by auto
      then show ?thesis
      proof
        assume "l = c # k"
        moreover have "last k = LF" using Cons.IH [of k] Cons \<open>ks \<noteq> []\<close> by simp
        ultimately show ?thesis using k by simp
      next
        assume "l \<in> set (butlast ks)"
        then show ?thesis using Cons.IH [of l] Cons \<open>ks \<noteq> []\<close> by simp
      qed
    qed
  qed
qed

lemma split_lines_line: "LF \<notin> set u \<Longrightarrow> split_lines (u @ LF # r) = (u @ [LF]) # split_lines r"
  by (induction u) auto

lemma split_lines_open: "LF \<notin> set u \<Longrightarrow> u \<noteq> [] \<Longrightarrow> split_lines u = [u]"
proof (induction u)
  case Nil
  then show ?case by simp
next
  case (Cons a u)
  show ?case
  proof (cases "u = []")
    case True
    with Cons.prems show ?thesis by simp
  next
    case False
    with Cons have "split_lines u = [u]" by simp
    with Cons.prems show ?thesis by auto
  qed
qed

lemma universal_newlines_no_CR: "CR \<notin> set (universal_newlines s)"
  by (induction s rule: universal_newlines.induct) auto

lemma universal_newlines_id: "CR \<notin> set s \<Longrightarrow> universal_newlines s = s"
  by (induction s rule: universal_newlines.induct) auto

lemma split_lines_concat:
  assumes "[] \<notin> set ls"
    and "\<forall>l\<in>set ls. LF \<notin> set (butlast l)"
    and "\<forall>l\<in>set (butlast ls). last l = LF"
  shows "split_lines (concat ls) = ls"
  using assms
proof (induction ls)
  case Nil
  then show ?case by simp
next
  case (Cons l ls)
  from Cons.prems have l: "l \<noteq> []" "LF \<notin> set (butlast l)" by auto
  show ?case
  proof (cases "ls = []")
    case True
    show ?thesis
    proof (cases "last l = LF")
      case True
      then have "l = butlast l @ [LF]" using l(1) by (metis append_butlast_last_id)
      then have "split_lines l = [l]"
        using split_lines_line [OF l(2), of "[]"] by simp
      with \<open>ls = []\<close> show ?thesis by simp
    next
      case False
      then have "LF \<notin> set l" using l by (metis append_butlast_last_id insert_iff list.set(2) rotate1.simps(2) set_rotate1)
      with \<open>ls = []\<close> l(1) show ?thesis by (simp add: split_lines_open)
    qed
  next
    case False
    with Cons.prems have "last l = LF" by simp
    then have eq: "l = butlast l @ [LF]" using l(1) by (metis append_butlast_last_id)
    have "split_lines (concat ls) = ls" using Cons False by (auto split: if_splits)
    moreover have "split_lines (butlast l @ LF # concat ls) = (butlast l @ [LF]) # split_lines (concat ls)"
      by (rule split_lines_line [OF l(2)])
    ultimately show ?thesis using eq by (metis append.assoc append_Cons append_Nil concat.simps(2))
  qed
qed

lemma readlines_concat:
  assumes "ls = readlines t" and "ls \<noteq> []" and "LF \<notin> set u" and "CR \<notin> set u"
  shows "readlines (concat (butlast ls @ [u @ [LF]])) = butlast ls @ [u @ [LF]]"
proof -
  let ?ls = "butlast ls @ [u @ [LF]]"
  have in_ls: "\<And>l. l \<in> set (butlast ls) \<Longrightarrow> l \<in> set ls" by (rule in_set_butlastD)
  have noCR: "CR \<notin> set (concat ls)"
    using universal_newlines_no_CR [of t] by (simp add: assms(1) readlines_def concat_split_lines)
  have "CR \<notin> set (concat ?ls)"
    using noCR assms(4) in_ls by auto
  then have "readlines (concat ?ls) = split_lines (concat ?ls)"
    unfolding readlines_def by (rule arg_cong [OF universal_newlines_id])
  also have "\<dots> = ?ls"
  proof (rule split_lines_concat)
    show "[] \<notin> set ?ls"
      using split_lines_nonempty [of "universal_newlines t"] in_ls
      by (auto simp: assms(1) readlines_def)
    show "\<forall>l\<in>set ?ls. LF \<notin> set (butlast l)"
      using split_lines_inner [of _ "universal_newlines t"] in_ls assms(3)
      by (auto simp: assms(1) readlines_def)
    show "\<forall>l\<in>set (butlast ?ls). last l = LF"
      using split_lines_ended [of _ "universal_newlines t"]
      by (auto simp: assms(1) readlines_def butlast_append)
  qed
  finally show ?thesis .
qed

subsection \<open>One run on a directory that holds a single regular file\<close>

lemma update_last: "xs \<noteq> [] \<Longrightarrow> xs[length xs - Suc 0 := v] = butlast xs @ [v]"
  by (induction xs rule: rev_induct) (auto simp: list_update_append)

lemma append_rootwait_single:
  assumes d: "dirs fs (path @ ''/boot/loader/entries/'') = Some [(n, File t)]"
    and n: "SLASH \<notin> set n"
  shows "append_rootwait path fs =
    (let ep = path @ ''/boot/loader/entries/''; fp = ep @ n; ls = readlines t in
     case faults fs Listdir ep of
       Some desc \<Rightarrow> (Inl (OSError desc ep), fs\<lparr>calls := calls fs @ [(Listdir, ep)]\<rparr>)
     | None \<Rightarrow>
     (case faults fs OpenRead fp of
       Some desc \<Rightarrow> (Inl (OSError desc fp), fs\<lparr>calls := calls fs @ [(Listdir, ep), (OpenRead, fp)]\<rparr>)
     | None \<Rightarrow>
       if ls = [] then (Inl IndexError, fs\<lparr>calls := calls fs @ [(Listdir, ep), (OpenRead, fp)]\<rparr>)
       else if \<not> prefix ''options '' (last ls)
       then (Inl (Exception options_message), fs\<lparr>calls := calls fs @ [(Listdir, ep), (OpenRead, fp)]\<rparr>)
       else
       (case faults fs Unlink fp of
          Some desc \<Rightarrow> (Inl (OSError desc fp),
             fs\<lparr>calls := calls fs @ [(Listdir, ep), (OpenRead, fp), (Unlink, fp)]\<rparr>)
        | None \<Rightarrow>
        (case faults fs OpenWrite fp of
           Some desc \<Rightarrow> (Inl (OSError desc fp),
             fs\<lparr>dirs := (dirs fs)(ep \<mapsto> []),
                calls := calls fs @ [(Listdir, ep), (OpenRead, fp), (Unlink, fp), (OpenWrite, fp)]\<rparr>)
         | None \<Rightarrow> (Inr (),
             fs\<lparr>dirs := (dirs fs)(ep \<mapsto>
                   [(n, File (concat (butlast ls @ [butlast (last ls) @ '' rootwait'' @ [LF]])))]),
                calls := calls fs @ [(Listdir, ep), (OpenRead, fp), (Unlink, fp), (OpenWrite, fp)]\<rparr>)))))"
proof -
  define ep where "ep = path @ ''/boot/loader/entries/''"
  have ep: "ep \<noteq> []" "last ep = SLASH" by (simp_all add: ep_def)
  have dp: "dir_part (ep @ n) = ep" and np: "name_part (ep @ n) = n"
    using dir_part_append [OF n ep] name_part_append [OF n ep] by simp_all
  have d': "dirs fs ep = Some [(n, File t)]" using d by (simp add: ep_def)
  show ?thesis
    unfolding append_rootwait_def Let_def ep_def [symmetric]
    by (simp add: os_listdir_def open_read_def os_unlink_def open_write_def writelines_def
        logged_def lookup_node_def dp np d' update_last Let_def
        split: option.splits)
qed

lemma append_rootwait_ok:
  assumes "dirs fs (path @ ''/boot/loader/entries/'') = Some [(n, File t)]"
    and "SLASH \<notin> set n"
    and "faults fs = (\<lambda>op p. None)"
    and "readlines t \<noteq> []"
    and "prefix ''options '' (last (readlines t))"
  shows "append_rootwait path fs =
    (Inr (),
     fs\<lparr>dirs := (dirs fs)(path @ ''/boot/loader/entries/'' \<mapsto>
           [(n, File (concat (butlast (readlines t) @
                [butlast (last (readlines t)) @ '' rootwait'' @ [LF]])))]),
        calls := calls fs @
          [(Listdir, path @ ''/boot/loader/entries/''),
           (OpenRead, (path @ ''/boot/loader/entries/'') @ n),
           (Unlink, (path @ ''/boot/loader/entries/'') @ n),
           (OpenWrite, (path @ ''/boot/loader/entries/'') @ n)]\<rparr>)"
  unfolding append_rootwait_single [OF assms(1,2)] Let_def
  using assms(3,4,5) by simp

lemma file_text_single:
  assumes "dirs fs (path @ ''/boot/loader/entries/'') = Some [(n, File x)]" and "SLASH \<notin> set n"
  shows "file_text fs ((path @ ''/boot/loader/entries/'') @ n) = Some x"
proof -
  define ep where "ep = path @ ''/boot/loader/entries/''"
  have ep: "ep \<noteq> []" "last ep = SLASH" by (simp_all add: ep_def)
  have "dir_part (ep @ n) = ep" "name_part (ep @ n) = n"
    using dir_part_append [OF assms(2) ep] name_part_append [OF assms(2) ep] by simp_all
  then show ?thesis
    using assms(1) unfolding ep_def [symmetric] by (simp add: file_text_def lookup_node_def)
qed

lemma readlines_rewritten:
  assumes "readlines t \<noteq> []"
  shows "readlines (concat (butlast (readlines t) @
            [butlast (last (readlines t)) @ '' rootwait'' @ [LF]]))
         = butlast (readlines t) @ [butlast (last (readlines t)) @ '' rootwait'' @ [LF]]"
proof -
  let ?l = "last (readlines t)"
  have mem: "?l \<in> set (split_lines (universal_newlines t))"
    using assms by (simp add: readlines_def)
  have lf: "LF \<notin> set (butlast ?l)"
    using split_lines_inner [OF mem] .
  have "CR \<notin> set (concat (split_lines (universal_newlines t)))"
    by (simp only: concat_split_lines universal_newlines_no_CR not_False_eq_True)
  with mem have "CR \<notin> set ?l" by auto
  then have cr: "CR \<notin> set (butlast ?l)" by (meson in_set_butlastD)
  have "readlines (concat (butlast (readlines t) @ [(butlast ?l @ '' rootwait'') @ [LF]]))
        = butlast (readlines t) @ [(butlast ?l @ '' rootwait'') @ [LF]]"
    by (rule readlines_concat [OF refl assms]) (use lf cr in auto)
  then show ?thesis by simp
qed

lemma append_rootwait_returns:
  assumes "dirs fs (path @ ''/boot/loader/entries/'') = Some [(n, File t)]"
    and "SLASH \<notin> set n"
    and "fst (append_rootwait path fs) = Inr u"
  shows "readlines t \<noteq> [] \<and> prefix ''options '' (last (readlines t)) \<and>
         file_text (snd (append_rootwait path fs)) ((path @ ''/boot/loader/entries/'') @ n)
           = Some (concat (butlast (readlines t) @
                [butlast (last (readlines t)) @ '' rootwait'' @ [LF]]))"
proof -
  have *: "\<And>x c. file_text (fs\<lparr>dirs := (dirs fs)(path @ ''/boot/loader/entries/'' \<mapsto> [(n, File x)]),
                 calls := c\<rparr>) ((path @ ''/boot/loader/entries/'') @ n) = Some x"
    by (rule file_text_single [OF _ assms(2)]) simp
  show ?thesis
    using assms(3) * unfolding append_rootwait_single [OF assms(1,2)] Let_def
    by (simp split: option.splits if_splits)
qed

lemma os_listdir_state: "snd (os_listdir p fs) = fs\<lparr>calls := calls fs @ [(Listdir, p)]\<rparr>"
  by (simp add: os_listdir_def logged_def Let_def split: option.splits)

lemma quiet_tree_runs:
  "fst (append_rootwait ''/img'' (image_tree ''/img'' [(''entry.conf'', File ''options quiet\<newline>'')]))
     = Inr ()"
proof -
  have "readlines ''options quiet\<newline>'' = [''options quiet\<newline>'']"
    by (simp add: readlines_def)
  then show ?thesis
    by (subst append_rootwait_ok [where n = "''entry.conf''" and t = "''options quiet\<newline>''"])
       (simp_all add: image_tree_def)
qed

lemma rewritten_no_CR:
  assumes "readlines t \<noteq> []"
  shows "CR \<notin> set (concat (butlast (readlines t) @
            [butlast (last (readlines t)) @ '' rootwait'' @ [LF]]))"
proof -
  have "CR \<notin> set (concat (split_lines (universal_newlines t)))"
    by (simp only: concat_split_lines universal_newlines_no_CR not_False_eq_True)
  then have all: "\<And>l. l \<in> set (readlines t) \<Longrightarrow> CR \<notin> set l"
    by (auto simp: readlines_def)
  have "CR \<notin> set (last (readlines t))" using all assms by simp
  then have "CR \<notin> set (butlast (last (readlines t)))" by (meson in_set_butlastD)
  moreover have "\<And>l. l \<in> set (butlast (readlines t)) \<Longrightarrow> CR \<notin> set l"
    using all by (meson in_set_butlastD)
  ultimately show ?thesis by auto
qed

lemma readlines_no_CR: "CR \<notin> set t \<Longrightarrow> readlines t = split_lines t"
  by (simp add: readlines_def universal_newlines_id)

section \<open>The claims\<close>

text \<open>
  C1. The code takes the last character off the last line whatever it is. For a last line
  that ends in a line feed this removes the line feed; the entry file \<open>options quiet\<close>
  with no line feed at its end loses the \<open>t\<close> of its last option, where the claim has
  \<open>options quiet rootwait\<close>.
\<close>

theorem unterminated_last_line:
  "fst (append_rootwait ''/img'' (image_tree ''/img'' [(''entry.conf'', File ''options quiet'')]))
     = Inr () \<and>
   file_text (snd (append_rootwait ''/img''
        (image_tree ''/img'' [(''entry.conf'', File ''options quiet'')])))
      ''/img/boot/loader/entries/entry.conf''
     = Some ''options quie rootwait\<newline>'' \<and>
   ''options quie rootwait\<newline>'' \<noteq> ''options quiet'' @ '' rootwait'' @ [LF]"
proof -
  let ?fs = "image_tree ''/img'' [(''entry.conf'', File ''options quiet'')]"
  have ls: "readlines ''options quiet'' = [''options quiet'']"
    by (simp add: readlines_def)
  have run: "append_rootwait ''/img'' ?fs =
    (Inr (),
     ?fs\<lparr>dirs := (dirs ?fs)(''/img'' @ ''/boot/loader/entries/'' \<mapsto>
           [(''entry.conf'', File (concat (butlast (readlines ''options quiet'') @
                [butlast (last (readlines ''options quiet'')) @ '' rootwait'' @ [LF]])))]),
        calls := calls ?fs @
          [(Listdir, ''/img'' @ ''/boot/loader/entries/''),
           (OpenRead, (''/img'' @ ''/boot/loader/entries/'') @ ''entry.conf''),
           (Unlink, (''/img'' @ ''/boot/loader/entries/'') @ ''entry.conf''),
           (OpenWrite, (''/img'' @ ''/boot/loader/entries/'') @ ''entry.conf'')]\<rparr>)"
    by (rule append_rootwait_ok) (simp_all add: image_tree_def ls)
  show ?thesis
    unfolding run by (simp add: file_text_def lookup_node_def dir_part_def name_part_def ls)
qed

text \<open>
  C2. \<open>append_rootwait\<close> returns normally only if the listing of the entries directory
  has exactly one name. When the listing has no name, or two or more, it fails with the
  \<open>Exception\<close> whose message holds the path of the entries directory and the listing as
  Python prints a list, and it has made no call but the listing.
\<close>

theorem entry_count_gate:
  "(fst (append_rootwait path fs) = Inr u \<longrightarrow>
      (\<exists>name. fst (os_listdir (path @ ''/boot/loader/entries/'') fs) = Inr [name])) \<and>
   (fst (os_listdir (path @ ''/boot/loader/entries/'') fs) = Inr names \<and> length names \<noteq> 1 \<longrightarrow>
      append_rootwait path fs =
        (Inl (Exception (''Unable to find specific entry file in '' @
                (path @ ''/boot/loader/entries/'') @ '', found '' @ py_repr_list names @
                '' instead'')),
         fs\<lparr>calls := calls fs @ [(Listdir, path @ ''/boot/loader/entries/'')]\<rparr>))"
proof (intro conjI impI)
  assume "fst (append_rootwait path fs) = Inr u"
  then obtain names where "fst (os_listdir (path @ ''/boot/loader/entries/'') fs) = Inr names"
    and "length names = 1"
    unfolding append_rootwait_def Let_def
    by (auto split: prod.splits sum.splits if_splits)
  then show "\<exists>name. fst (os_listdir (path @ ''/boot/loader/entries/'') fs) = Inr [name]"
    by (cases names) auto
next
  assume a: "fst (os_listdir (path @ ''/boot/loader/entries/'') fs) = Inr names \<and> length names \<noteq> 1"
  obtain r fs1 where r: "os_listdir (path @ ''/boot/loader/entries/'') fs = (r, fs1)"
    by (cases "os_listdir (path @ ''/boot/loader/entries/'') fs")
  have "fs1 = fs\<lparr>calls := calls fs @ [(Listdir, path @ ''/boot/loader/entries/'')]\<rparr>"
    using os_listdir_state [of "path @ ''/boot/loader/entries/''" fs] r by simp
  moreover have "r = Inr names" using a r by simp
  ultimately show "append_rootwait path fs =
        (Inl (Exception (''Unable to find specific entry file in '' @
                (path @ ''/boot/loader/entries/'') @ '', found '' @ py_repr_list names @
                '' instead'')),
         fs\<lparr>calls := calls fs @ [(Listdir, path @ ''/boot/loader/entries/'')]\<rparr>)"
    using a r unfolding append_rootwait_def Let_def
    by (simp add: count_message_def)
qed

theorem entry_count_gate_witness:
  "fst (append_rootwait ''/img'' (image_tree ''/img'' [(''entry.conf'', File ''options quiet\<newline>'')]))
     = Inr () \<and>
   fst (os_listdir (''/img'' @ ''/boot/loader/entries/'')
      (image_tree ''/img'' [(''entry.conf'', File ''options quiet\<newline>'')])) = Inr [''entry.conf''] \<and>
   fst (os_listdir (''/img'' @ ''/boot/loader/entries/'') (image_tree ''/img'' [])) = Inr [] \<and>
   length ([] :: string list) \<noteq> 1 \<and>
   fst (append_rootwait ''/img'' (image_tree ''/img'' [])) =
     Inl (Exception
       ''Unable to find specific entry file in /img/boot/loader/entries/, found [] instead'') \<and>
   fst (os_listdir (''/img'' @ ''/boot/loader/entries/'')
      (image_tree ''/img'' [(''a.conf'', File ''options quiet\<newline>''), (''b's'', Directory)]))
     = Inr [''a.conf'', ''b's''] \<and>
   length [''a.conf'', ''b's''] \<noteq> 1 \<and>
   fst (append_rootwait ''/img''
      (image_tree ''/img'' [(''a.conf'', File ''options quiet\<newline>''), (''b's'', Directory)])) =
     Inl (Exception
       (''Unable to find specific entry file in /img/boot/loader/entries/, found ['a.conf', '' @
        [DQ] @ ''b's'' @ [DQ] @ ''] instead''))"
proof -
  let ?one = "image_tree ''/img'' [(''entry.conf'', File ''options quiet\<newline>'')]"
  let ?two = "image_tree ''/img'' [(''a.conf'', File ''options quiet\<newline>''), (''b's'', Directory)]"
  have l1: "fst (os_listdir (''/img'' @ ''/boot/loader/entries/'') ?one) = Inr [''entry.conf'']"
    and l0: "fst (os_listdir (''/img'' @ ''/boot/loader/entries/'') (image_tree ''/img'' [])) = Inr []"
    and l2: "fst (os_listdir (''/img'' @ ''/boot/loader/entries/'') ?two) = Inr [''a.conf'', ''b's'']"
    by (simp_all add: os_listdir_def image_tree_def Let_def)
  have "\<exists>name. fst (os_listdir (''/img'' @ ''/boot/loader/entries/'') ?one) = Inr [name]"
    using entry_count_gate [of "''/img''" ?one "()" "[]"] quiet_tree_runs by blast
  have e0: "fst (append_rootwait ''/img'' (image_tree ''/img'' [])) =
     Inl (Exception
       ''Unable to find specific entry file in /img/boot/loader/entries/, found [] instead'')"
    using entry_count_gate [of "''/img''" "image_tree ''/img'' []" "()" "[]"] l0
    by (simp add: py_repr_list_def)
  have e2: "fst (append_rootwait ''/img'' ?two) =
     Inl (Exception
       (''Unable to find specific entry file in /img/boot/loader/entries/, found ['a.conf', '' @
        [DQ] @ ''b's'' @ [DQ] @ ''] instead''))"
    using entry_count_gate [of "''/img''" ?two "()" "[''a.conf'', ''b's'']"] l2
    by (simp add: py_repr_list_def py_repr_def repr_quote_def repr_char_def printable_def Let_def)
  show ?thesis using quiet_tree_runs l1 l0 l2 e0 e2 by simp
qed

text \<open>
  C3. For an entry file whose last line does not start with \<open>options \<close>,
  \<open>append_rootwait\<close> raises an error and the file is left as it was: the state differs
  from the initial one by the record of calls alone, and the calls made are listings and
  reads, no removal and no opening for writing. Where no call fails for a reason of the
  environment, the error is the descriptive one about the last line.
\<close>

theorem bad_last_line_untouched:
  assumes "dirs fs (path @ ''/boot/loader/entries/'') = Some [(n, File t)]"
    and "SLASH \<notin> set n"
    and "readlines t \<noteq> []"
    and "\<not> prefix ''options '' (last (readlines t))"
  shows "\<exists>e cs. append_rootwait path fs = (Inl e, fs\<lparr>calls := calls fs @ cs\<rparr>) \<and>
           set (map fst cs) \<subseteq> {Listdir, OpenRead} \<and>
           (faults fs = (\<lambda>op p. None) \<longrightarrow> e = Exception options_message)"
  unfolding append_rootwait_single [OF assms(1,2)] Let_def
  using assms(3,4) by (auto split: option.splits)

theorem bad_last_line_untouched_witness:
  "dirs (image_tree ''/img'' [(''entry.conf'', File ''title Test\<newline>'')])
       (''/img'' @ ''/boot/loader/entries/'')
     = Some [(''entry.conf'', File ''title Test\<newline>'')] \<and>
   SLASH \<notin> set ''entry.conf'' \<and>
   readlines ''title Test\<newline>'' \<noteq> [] \<and>
   \<not> prefix ''options '' (last (readlines ''title Test\<newline>'')) \<and>
   faults (image_tree ''/img'' [(''entry.conf'', File ''title Test\<newline>'')]) = (\<lambda>op p. None) \<and>
   fst (append_rootwait ''/img'' (image_tree ''/img'' [(''entry.conf'', File ''title Test\<newline>'')]))
     = Inl (Exception options_message) \<and>
   dirs (snd (append_rootwait ''/img'' (image_tree ''/img'' [(''entry.conf'', File ''title Test\<newline>'')])))
     = dirs (image_tree ''/img'' [(''entry.conf'', File ''title Test\<newline>'')])"
  using bad_last_line_untouched [of "image_tree ''/img'' [(''entry.conf'', File ''title Test\<newline>'')]"
      "''/img''" "''entry.conf''" "''title Test\<newline>''"]
  by (auto simp: image_tree_def readlines_def)

text \<open>
  C4. As amended. A file is read in text mode, where \<open>\r\n\<close> and a lone \<open>\r\<close> end a
  line and reach the program as \<open>\n\<close>, and is written with \<open>\n\<close>. For an entry file of
  \<open>N > 1\<close> lines on which \<open>append_rootwait\<close> returns normally, the rewritten file has
  \<open>N\<close> lines, stored as they are read; its lines 1 to \<open>N - 1\<close> are the lines of the
  original as read in text mode, and its last line differs from the original's. When the
  original holds no carriage return, its lines as read are its lines as stored, line
  feeds included.
\<close>

theorem preceding_lines_kept:
  assumes "dirs fs (path @ ''/boot/loader/entries/'') = Some [(n, File t)]"
    and "SLASH \<notin> set n"
    and "fst (append_rootwait path fs) = Inr u"
    and "1 < length (readlines t)"
  shows "\<exists>t'. file_text (snd (append_rootwait path fs)) ((path @ ''/boot/loader/entries/'') @ n)
             = Some t' \<and>
           split_lines t' = readlines t' \<and>
           length (readlines t') = length (readlines t) \<and>
           (\<forall>i. i < length (readlines t) - 1 \<longrightarrow> readlines t' ! i = readlines t ! i) \<and>
           last (readlines t') \<noteq> last (readlines t) \<and>
           (CR \<notin> set t \<longrightarrow> readlines t = split_lines t)"
proof -
  let ?ls = "readlines t"
  let ?new = "butlast (last ?ls) @ '' rootwait'' @ [LF]"
  let ?t' = "concat (butlast ?ls @ [?new])"
  from append_rootwait_returns [OF assms(1,2,3)]
  have ne: "?ls \<noteq> []"
    and ft: "file_text (snd (append_rootwait path fs)) ((path @ ''/boot/loader/entries/'') @ n)
               = Some ?t'"
    by simp_all
  have rl: "readlines ?t' = butlast ?ls @ [?new]" by (rule readlines_rewritten [OF ne])
  have raw: "split_lines ?t' = readlines ?t'"
    using readlines_no_CR [OF rewritten_no_CR [OF ne]] by simp
  have len: "length (readlines ?t') = length ?ls" using ne unfolding rl by simp
  have nth: "\<forall>i. i < length ?ls - 1 \<longrightarrow> readlines ?t' ! i = ?ls ! i"
    unfolding rl by (simp add: nth_append nth_butlast)
  have "length ?new \<noteq> length (last ?ls)" by simp
  then have "?new \<noteq> last ?ls" by (rule contrapos_nn) (erule arg_cong)
  then have diff: "last (readlines ?t') \<noteq> last ?ls" unfolding rl by simp
  have cr: "CR \<notin> set t \<longrightarrow> readlines t = split_lines t"
    by (rule impI) (rule readlines_no_CR)
  show ?thesis
    by (rule exI [of _ ?t']) (intro conjI ft raw len nth diff cr)
qed

theorem preceding_lines_kept_witness:
  "dirs (image_tree ''/img''
        [(''entry.conf'', File (''title Test'' @ [CR, LF] @ ''options quiet'' @ [LF]))])
       (''/img'' @ ''/boot/loader/entries/'')
     = Some [(''entry.conf'', File (''title Test'' @ [CR, LF] @ ''options quiet'' @ [LF]))] \<and>
   SLASH \<notin> set ''entry.conf'' \<and>
   fst (append_rootwait ''/img'' (image_tree ''/img''
        [(''entry.conf'', File (''title Test'' @ [CR, LF] @ ''options quiet'' @ [LF]))])) = Inr () \<and>
   1 < length (readlines (''title Test'' @ [CR, LF] @ ''options quiet'' @ [LF])) \<and>
   (\<exists>t'. file_text (snd (append_rootwait ''/img'' (image_tree ''/img''
        [(''entry.conf'', File (''title Test'' @ [CR, LF] @ ''options quiet'' @ [LF]))])))
        ((''/img'' @ ''/boot/loader/entries/'') @ ''entry.conf'') = Some t' \<and>
      length (readlines t') = 2 \<and>
      readlines t' ! 0 = ''title Test\<newline>'')"
proof -
  let ?t = "''title Test'' @ [CR, LF] @ ''options quiet'' @ [LF]"
  let ?fs = "image_tree ''/img'' [(''entry.conf'', File ?t)]"
  have ls0: "readlines ?t = [''title Test\<newline>'', ''options quiet\<newline>'']"
    by (simp add: readlines_def)
  note ls = ls0 [simplified]
  have d: "dirs ?fs (''/img'' @ ''/boot/loader/entries/'') = Some [(''entry.conf'', File ?t)]"
    by (simp add: image_tree_def)
  have n: "SLASH \<notin> set ''entry.conf''" by simp
  have f: "faults ?fs = (\<lambda>op p. None)" by (simp add: image_tree_def)
  have run: "fst (append_rootwait ''/img'' ?fs) = Inr ()"
    by (subst append_rootwait_ok [OF d n f]) (simp_all add: ls)
  have len: "1 < length (readlines ?t)" unfolding ls0 by simp
  from preceding_lines_kept [OF d n run len] obtain t' where
    w: "file_text (snd (append_rootwait ''/img'' ?fs)) ((''/img'' @ ''/boot/loader/entries/'') @ ''entry.conf'')
       = Some t' \<and>
     split_lines t' = readlines t' \<and>
     length (readlines t') = length (readlines ?t) \<and>
     (\<forall>i. i < length (readlines ?t) - 1 \<longrightarrow> readlines t' ! i = readlines ?t ! i) \<and>
     last (readlines t') \<noteq> last (readlines ?t) \<and>
     (CR \<notin> set ?t \<longrightarrow> readlines ?t = split_lines ?t)" ..
  note w1 = w [THEN conjunct1]
    and w3 = w [THEN conjunct2, THEN conjunct2, THEN conjunct1]
    and w4 = w [THEN conjunct2, THEN conjunct2, THEN conjunct2, THEN conjunct1]
  have l2: "length (readlines t') = 2" using w3 unfolding ls0 by simp
  have "readlines t' ! 0 = readlines ?t ! 0" using w4 unfolding ls0 by simp
  then have n0: "readlines t' ! 0 = ''title Test\<newline>''" unfolding ls0 by simp
  have "\<exists>t'. file_text (snd (append_rootwait ''/img'' ?fs))
         ((''/img'' @ ''/boot/loader/entries/'') @ ''entry.conf'') = Some t' \<and>
      length (readlines t') = 2 \<and> readlines t' ! 0 = ''title Test\<newline>''"
    by (rule exI [of _ t']) (intro conjI w1 l2 n0)
  with d n run len show ?thesis by (intro conjI)
qed

text \<open>
  A file whose first line ends in \<open>\r\n\<close>: the run returns normally, and the first
  line of the rewritten file ends in \<open>\n\<close> alone.
\<close>

theorem carriage_return_counterexample:
  "file_text (image_tree ''/img''
        [(''entry.conf'', File (''title Test'' @ [CR, LF] @ ''options quiet'' @ [LF]))])
      ''/img/boot/loader/entries/entry.conf''
     = Some (''title Test'' @ [CR, LF] @ ''options quiet'' @ [LF]) \<and>
   length (readlines (''title Test'' @ [CR, LF] @ ''options quiet'' @ [LF])) = 2 \<and>
   fst (append_rootwait ''/img'' (image_tree ''/img''
        [(''entry.conf'', File (''title Test'' @ [CR, LF] @ ''options quiet'' @ [LF]))])) = Inr () \<and>
   file_text (snd (append_rootwait ''/img'' (image_tree ''/img''
        [(''entry.conf'', File (''title Test'' @ [CR, LF] @ ''options quiet'' @ [LF]))])))
      ''/img/boot/loader/entries/entry.conf''
     = Some ''title Test\<newline>options quiet rootwait\<newline>'' \<and>
   split_lines (''title Test'' @ [CR, LF] @ ''options quiet'' @ [LF]) ! 0 = ''title Test'' @ [CR, LF] \<and>
   split_lines ''title Test\<newline>options quiet rootwait\<newline>'' ! 0 = ''title Test\<newline>'' \<and>
   ''title Test\<newline>'' \<noteq> ''title Test'' @ [CR, LF]"
proof -
  let ?t = "''title Test'' @ [CR, LF] @ ''options quiet'' @ [LF]"
  let ?fs = "image_tree ''/img'' [(''entry.conf'', File ?t)]"
  have ls0: "readlines ?t = [''title Test\<newline>'', ''options quiet\<newline>'']"
    by (simp add: readlines_def)
  note ls = ls0 [simplified]
  have run: "append_rootwait ''/img'' ?fs =
    (Inr (),
     ?fs\<lparr>dirs := (dirs ?fs)(''/img'' @ ''/boot/loader/entries/'' \<mapsto>
           [(''entry.conf'', File (concat (butlast (readlines ?t) @
                [butlast (last (readlines ?t)) @ '' rootwait'' @ [LF]])))]),
        calls := calls ?fs @
          [(Listdir, ''/img'' @ ''/boot/loader/entries/''),
           (OpenRead, (''/img'' @ ''/boot/loader/entries/'') @ ''entry.conf''),
           (Unlink, (''/img'' @ ''/boot/loader/entries/'') @ ''entry.conf''),
           (OpenWrite, (''/img'' @ ''/boot/loader/entries/'') @ ''entry.conf'')]\<rparr>)"
    by (rule append_rootwait_ok) (simp_all add: image_tree_def ls)
  have before: "file_text ?fs ''/img/boot/loader/entries/entry.conf'' = Some ?t"
    by (simp add: file_text_def lookup_node_def dir_part_def name_part_def image_tree_def)
  show ?thesis
    unfolding run before
    by (simp add: file_text_def lookup_node_def dir_part_def name_part_def ls)
qed

text \<open>
  C5. \<open>append_rootwait\<close> is not idempotent. For an entry file whose last line is
  \<open>options console=ttyS0\<close> with a line feed, a run returns normally and leaves the last
  line \<open>options console=ttyS0 rootwait\<close>; a second run on the state the first one left
  returns normally too and leaves \<open>options console=ttyS0 rootwait rootwait\<close>: the token
  is added whether it is there or not.
\<close>

theorem double_append:
  assumes "dirs fs (path @ ''/boot/loader/entries/'') = Some [(n, File t)]"
    and "SLASH \<notin> set n"
    and "faults fs = (\<lambda>op p. None)"
    and "readlines t \<noteq> []"
    and "last (readlines t) = ''options console=ttyS0\<newline>''"
  shows "fst (append_rootwait path fs) = Inr () \<and>
         (\<exists>t1. file_text (snd (append_rootwait path fs)) ((path @ ''/boot/loader/entries/'') @ n)
                 = Some t1 \<and>
               last (readlines t1) = ''options console=ttyS0 rootwait\<newline>'') \<and>
         fst (append_rootwait path (snd (append_rootwait path fs))) = Inr () \<and>
         (\<exists>t2. file_text (snd (append_rootwait path (snd (append_rootwait path fs))))
                 ((path @ ''/boot/loader/entries/'') @ n) = Some t2 \<and>
               last (readlines t2) = ''options console=ttyS0 rootwait rootwait\<newline>'')"
proof -
  define ep where "ep = path @ ''/boot/loader/entries/''"
  define t1 where "t1 = concat (butlast (readlines t) @
      [butlast (last (readlines t)) @ '' rootwait'' @ [LF]])"
  define fs1 where "fs1 = snd (append_rootwait path fs)"
  define t2 where "t2 = concat (butlast (readlines t1) @
      [butlast (last (readlines t1)) @ '' rootwait'' @ [LF]])"
  note d = assms(1) [folded ep_def]
  have pre: "prefix ''options '' (last (readlines t))" by (simp add: assms(5))
  have run1: "append_rootwait path fs =
      (Inr (),
       fs\<lparr>dirs := (dirs fs)(ep \<mapsto> [(n, File t1)]),
          calls := calls fs @
            [(Listdir, ep), (OpenRead, ep @ n), (Unlink, ep @ n), (OpenWrite, ep @ n)]\<rparr>)"
    unfolding ep_def t1_def by (rule append_rootwait_ok [OF assms(1,2,3,4) pre])
  have ok1: "fst (append_rootwait path fs) = Inr ()" by (simp add: run1)
  have d1: "dirs fs1 ep = Some [(n, File t1)]" and f1: "faults fs1 = (\<lambda>op p. None)"
    by (simp_all add: fs1_def run1 assms(3))
  have ft1: "file_text fs1 (ep @ n) = Some t1"
    unfolding ep_def by (rule file_text_single [OF d1 [unfolded ep_def] assms(2)])
  have rl1: "readlines t1 = butlast (readlines t) @ [butlast (last (readlines t)) @ '' rootwait'' @ [LF]]"
    unfolding t1_def by (rule readlines_rewritten [OF assms(4)])
  have last1: "last (readlines t1) = ''options console=ttyS0 rootwait\<newline>''"
    unfolding rl1 by (simp add: assms(5))
  have ne1: "readlines t1 \<noteq> []" unfolding rl1 by simp
  have pre1: "prefix ''options '' (last (readlines t1))" by (simp add: last1)
  have run2: "append_rootwait path fs1 =
      (Inr (),
       fs1\<lparr>dirs := (dirs fs1)(ep \<mapsto> [(n, File t2)]),
          calls := calls fs1 @
            [(Listdir, ep), (OpenRead, ep @ n), (Unlink, ep @ n), (OpenWrite, ep @ n)]\<rparr>)"
    unfolding ep_def t2_def by (rule append_rootwait_ok [OF d1 [unfolded ep_def] assms(2) f1 ne1 pre1])
  have ok2: "fst (append_rootwait path fs1) = Inr ()" by (simp add: run2)
  have ft2: "file_text (snd (append_rootwait path fs1)) (ep @ n) = Some t2"
    unfolding ep_def by (rule file_text_single [OF _ assms(2)]) (simp add: run2 ep_def)
  have rl2: "readlines t2 = butlast (readlines t1) @ [butlast (last (readlines t1)) @ '' rootwait'' @ [LF]]"
    unfolding t2_def by (rule readlines_rewritten [OF ne1])
  have last2: "last (readlines t2) = ''options console=ttyS0 rootwait rootwait\<newline>''"
    unfolding rl2 by (simp add: last1)
  have e1: "\<exists>t1. file_text fs1 (ep @ n) = Some t1 \<and>
      last (readlines t1) = ''options console=ttyS0 rootwait\<newline>''"
    by (rule exI [of _ t1]) (intro conjI ft1 last1)
  have e2: "\<exists>t2. file_text (snd (append_rootwait path fs1)) (ep @ n) = Some t2 \<and>
      last (readlines t2) = ''options console=ttyS0 rootwait rootwait\<newline>''"
    by (rule exI [of _ t2]) (intro conjI ft2 last2)
  show ?thesis
    by (intro conjI ok1 e1 [unfolded fs1_def ep_def] ok2 [unfolded fs1_def]
        e2 [unfolded fs1_def ep_def])
qed

theorem double_append_witness:
  "dirs (image_tree ''/img'' [(''entry.conf'', File ''title Test\<newline>options console=ttyS0\<newline>'')])
       (''/img'' @ ''/boot/loader/entries/'')
     = Some [(''entry.conf'', File ''title Test\<newline>options console=ttyS0\<newline>'')] \<and>
   SLASH \<notin> set ''entry.conf'' \<and>
   faults (image_tree ''/img'' [(''entry.conf'', File ''title Test\<newline>options console=ttyS0\<newline>'')])
     = (\<lambda>op p. None) \<and>
   readlines ''title Test\<newline>options console=ttyS0\<newline>'' \<noteq> [] \<and>
   last (readlines ''title Test\<newline>options console=ttyS0\<newline>'') = ''options console=ttyS0\<newline>'' \<and>
   fst (append_rootwait ''/img''
     (image_tree ''/img'' [(''entry.conf'', File ''title Test\<newline>options console=ttyS0\<newline>'')]))
     = Inr () \<and>
   fst (append_rootwait ''/img'' (snd (append_rootwait ''/img''
     (image_tree ''/img'' [(''entry.conf'', File ''title Test\<newline>options console=ttyS0\<newline>'')]))))
     = Inr () \<and>
   (\<exists>t2. file_text (snd (append_rootwait ''/img'' (snd (append_rootwait ''/img''
     (image_tree ''/img'' [(''entry.conf'', File ''title Test\<newline>options console=ttyS0\<newline>'')])))))
       ((''/img'' @ ''/boot/loader/entries/'') @ ''entry.conf'') = Some t2 \<and>
     last (readlines t2) = ''options console=ttyS0 rootwait rootwait\<newline>'')"
proof -
  let ?t = "''title Test\<newline>options console=ttyS0\<newline>''"
  let ?fs = "image_tree ''/img'' [(''entry.conf'', File ?t)]"
  have ls: "readlines ?t = [''title Test\<newline>'', ''options console=ttyS0\<newline>'']"
    by (simp add: readlines_def)
  have d: "dirs ?fs (''/img'' @ ''/boot/loader/entries/'') = Some [(''entry.conf'', File ?t)]"
    by (simp add: image_tree_def)
  have n: "SLASH \<notin> set ''entry.conf''" by simp
  have f: "faults ?fs = (\<lambda>op p. None)" by (simp add: image_tree_def)
  have ne: "readlines ?t \<noteq> []" and l: "last (readlines ?t) = ''options console=ttyS0\<newline>''"
    by (simp_all add: ls)
  note w = double_append [OF d n f ne l]
  show ?thesis
    by (intro conjI d n f ne l w [THEN conjunct1]
        w [THEN conjunct2, THEN conjunct2, THEN conjunct1]
        w [THEN conjunct2, THEN conjunct2, THEN conjunct2])
qed

text \<open>
  C6. The exit contract of the main block. With one positional argument (\<open>sys.argv\<close> of
  length two) and a patch that returns normally, the process prints nothing and exits with
  0. With any other number of arguments it exits with \<open>-1\<close> at once: nothing is printed
  and the file system, its record of calls included, is the initial one. With one
  argument and an error raised by the patch, the \<open>str\<close> of the exception and a line feed
  are printed on standard output and the process exits with \<open>-1\<close>.
\<close>

theorem main_exit_contract:
  "(length argv = 2 \<and> fst (append_rootwait (argv ! 1) fs) = Inr u \<longrightarrow>
      main argv fs =
        \<lparr>stdout = [], exit_code = 0, final_fs = snd (append_rootwait (argv ! 1) fs)\<rparr>) \<and>
   (length argv \<noteq> 2 \<longrightarrow>
      main argv fs = \<lparr>stdout = [], exit_code = - 1, final_fs = fs\<rparr>) \<and>
   (length argv = 2 \<and> fst (append_rootwait (argv ! 1) fs) = Inl exep \<longrightarrow>
      main argv fs =
        \<lparr>stdout = py_str exep @ [LF], exit_code = - 1,
         final_fs = snd (append_rootwait (argv ! 1) fs)\<rparr>)"
  by (cases "append_rootwait (argv ! 1) fs") (auto simp: main_def)

theorem main_exit_contract_witness:
  "length [''live-image-post-update-version.py'', ''/img''] = 2 \<and>
   fst (append_rootwait ([''live-image-post-update-version.py'', ''/img''] ! 1)
      (image_tree ''/img'' [(''entry.conf'', File ''options quiet\<newline>'')])) = Inr () \<and>
   stdout (main [''live-image-post-update-version.py'', ''/img'']
      (image_tree ''/img'' [(''entry.conf'', File ''options quiet\<newline>'')])) = [] \<and>
   exit_code (main [''live-image-post-update-version.py'', ''/img'']
      (image_tree ''/img'' [(''entry.conf'', File ''options quiet\<newline>'')])) = 0 \<and>
   length [''live-image-post-update-version.py''] \<noteq> 2 \<and>
   main [''live-image-post-update-version.py''] (image_tree ''/img'' []) =
     \<lparr>stdout = [], exit_code = - 1, final_fs = image_tree ''/img'' []\<rparr> \<and>
   length [''live-image-post-update-version.py'', ''/img'', ''/mnt''] \<noteq> 2 \<and>
   main [''live-image-post-update-version.py'', ''/img'', ''/mnt''] (image_tree ''/img'' []) =
     \<lparr>stdout = [], exit_code = - 1, final_fs = image_tree ''/img'' []\<rparr> \<and>
   fst (append_rootwait ([''live-image-post-update-version.py'', ''/mnt''] ! 1)
      (image_tree ''/img'' [])) =
     Inl (OSError ENOENT ''/mnt/boot/loader/entries/'') \<and>
   stdout (main [''live-image-post-update-version.py'', ''/mnt''] (image_tree ''/img'' [])) =
     ''[Errno 2] No such file or directory: '/mnt/boot/loader/entries/'\<newline>'' \<and>
   exit_code (main [''live-image-post-update-version.py'', ''/mnt''] (image_tree ''/img'' [])) = - 1"
proof -
  let ?prog = "''live-image-post-update-version.py''"
  let ?one = "image_tree ''/img'' [(''entry.conf'', File ''options quiet\<newline>'')]"
  have ok: "fst (append_rootwait ([?prog, ''/img''] ! 1) ?one) = Inr ()"
    using quiet_tree_runs by simp
  have err: "fst (append_rootwait ([?prog, ''/mnt''] ! 1) (image_tree ''/img'' [])) =
     Inl (OSError ENOENT ''/mnt/boot/loader/entries/'')"
    by (simp add: append_rootwait_def os_listdir_def image_tree_def Let_def)
  have m1: "main [?prog, ''/img''] ?one =
      \<lparr>stdout = [], exit_code = 0, final_fs = snd (append_rootwait ([?prog, ''/img''] ! 1) ?one)\<rparr>"
    using main_exit_contract [of "[?prog, ''/img'']" ?one "()" IndexError] ok by simp
  have m0: "main [?prog] (image_tree ''/img'' []) =
     \<lparr>stdout = [], exit_code = - 1, final_fs = image_tree ''/img'' []\<rparr>"
    using main_exit_contract [of "[?prog]" "image_tree ''/img'' []" "()" IndexError] by simp
  have m3: "main [?prog, ''/img'', ''/mnt''] (image_tree ''/img'' []) =
     \<lparr>stdout = [], exit_code = - 1, final_fs = image_tree ''/img'' []\<rparr>"
    using main_exit_contract [of "[?prog, ''/img'', ''/mnt'']" "image_tree ''/img'' []" "()" IndexError]
    by simp
  have me: "main [?prog, ''/mnt''] (image_tree ''/img'' []) =
      \<lparr>stdout = py_str (OSError ENOENT ''/mnt/boot/loader/entries/'') @ [LF], exit_code = - 1,
       final_fs = snd (append_rootwait ([?prog, ''/mnt''] ! 1) (image_tree ''/img'' []))\<rparr>"
    using main_exit_contract [of "[?prog, ''/mnt'']" "image_tree ''/img'' []" "()"
        "OSError ENOENT ''/mnt/boot/loader/entries/''"] err by simp
  have s: "py_str (OSError ENOENT ''/mnt/boot/loader/entries/'') @ [LF] =
     ''[Errno 2] No such file or directory: '/mnt/boot/loader/entries/'\<newline>''"
    by (simp add: ENOENT_def py_repr_def repr_quote_def repr_char_def printable_def Let_def)
  show ?thesis
    unfolding m1 m0 m3 me s using ok err by simp
qed

text \<open>
  C7. As amended. The rewrite is \<open>os.unlink\<close> followed by a separate
  \<open>open(path, "w")\<close>, and nothing puts the file back. When the file has been read and
  its last line accepted, \<open>os.unlink\<close> has removed it and the opening for writing then
  fails, the \<open>OSError\<close> of the opening is raised and no file stands at the path of the
  entry file afterwards. After a run that returns normally a file stands at that path.
\<close>

theorem failed_open_loses_file:
  assumes "dirs fs (path @ ''/boot/loader/entries/'') = Some [(n, File t)]"
    and "SLASH \<notin> set n"
  shows "(readlines t \<noteq> [] \<and> prefix ''options '' (last (readlines t)) \<and>
          faults fs Listdir (path @ ''/boot/loader/entries/'') = None \<and>
          faults fs OpenRead ((path @ ''/boot/loader/entries/'') @ n) = None \<and>
          faults fs Unlink ((path @ ''/boot/loader/entries/'') @ n) = None \<and>
          faults fs OpenWrite ((path @ ''/boot/loader/entries/'') @ n) = Some desc \<longrightarrow>
            fst (append_rootwait path fs)
              = Inl (OSError desc ((path @ ''/boot/loader/entries/'') @ n)) \<and>
            calls (snd (append_rootwait path fs)) = calls fs @
              [(Listdir, path @ ''/boot/loader/entries/''),
               (OpenRead, (path @ ''/boot/loader/entries/'') @ n),
               (Unlink, (path @ ''/boot/loader/entries/'') @ n),
               (OpenWrite, (path @ ''/boot/loader/entries/'') @ n)] \<and>
            lookup_node (snd (append_rootwait path fs)) ((path @ ''/boot/loader/entries/'') @ n)
              = None) \<and>
         (fst (append_rootwait path fs) = Inr u \<longrightarrow>
            file_text (snd (append_rootwait path fs)) ((path @ ''/boot/loader/entries/'') @ n)
              \<noteq> None)"
proof (intro conjI impI)
  define ep where "ep = path @ ''/boot/loader/entries/''"
  have ep: "ep \<noteq> []" "last ep = SLASH" by (simp_all add: ep_def)
  have dp: "dir_part (ep @ n) = ep" and np: "name_part (ep @ n) = n"
    using dir_part_append [OF assms(2) ep] name_part_append [OF assms(2) ep] by simp_all
  assume a: "readlines t \<noteq> [] \<and> prefix ''options '' (last (readlines t)) \<and>
          faults fs Listdir (path @ ''/boot/loader/entries/'') = None \<and>
          faults fs OpenRead ((path @ ''/boot/loader/entries/'') @ n) = None \<and>
          faults fs Unlink ((path @ ''/boot/loader/entries/'') @ n) = None \<and>
          faults fs OpenWrite ((path @ ''/boot/loader/entries/'') @ n) = Some desc"
  have run: "append_rootwait path fs =
      (Inl (OSError desc (ep @ n)),
       fs\<lparr>dirs := (dirs fs)(ep \<mapsto> []),
          calls := calls fs @
            [(Listdir, ep), (OpenRead, ep @ n), (Unlink, ep @ n), (OpenWrite, ep @ n)]\<rparr>)"
    unfolding append_rootwait_single [OF assms(1,2)] Let_def ep_def
    using a by simp
  show "fst (append_rootwait path fs) = Inl (OSError desc ((path @ ''/boot/loader/entries/'') @ n))"
    unfolding run by (simp add: ep_def)
  show "calls (snd (append_rootwait path fs)) = calls fs @
              [(Listdir, path @ ''/boot/loader/entries/''),
               (OpenRead, (path @ ''/boot/loader/entries/'') @ n),
               (Unlink, (path @ ''/boot/loader/entries/'') @ n),
               (OpenWrite, (path @ ''/boot/loader/entries/'') @ n)]"
    unfolding run by (simp add: ep_def)
  have "lookup_node (snd (append_rootwait path fs)) (ep @ n) = None"
    unfolding run by (simp add: lookup_node_def dp np)
  then show "lookup_node (snd (append_rootwait path fs)) ((path @ ''/boot/loader/entries/'') @ n) = None"
    by (simp only: ep_def)
next
  assume "fst (append_rootwait path fs) = Inr u"
  from append_rootwait_returns [OF assms this]
  show "file_text (snd (append_rootwait path fs)) ((path @ ''/boot/loader/entries/'') @ n) \<noteq> None"
    by simp
qed

theorem failed_open_loses_file_witness:
  "dirs (full_tree ''/img'' [(''entry.conf'', File ''options quiet\<newline>'')])
       (''/img'' @ ''/boot/loader/entries/'')
     = Some [(''entry.conf'', File ''options quiet\<newline>'')] \<and>
   SLASH \<notin> set ''entry.conf'' \<and>
   readlines ''options quiet\<newline>'' \<noteq> [] \<and>
   prefix ''options '' (last (readlines ''options quiet\<newline>'')) \<and>
   faults (full_tree ''/img'' [(''entry.conf'', File ''options quiet\<newline>'')]) Listdir
       (''/img'' @ ''/boot/loader/entries/'') = None \<and>
   faults (full_tree ''/img'' [(''entry.conf'', File ''options quiet\<newline>'')]) OpenRead
       ((''/img'' @ ''/boot/loader/entries/'') @ ''entry.conf'') = None \<and>
   faults (full_tree ''/img'' [(''entry.conf'', File ''options quiet\<newline>'')]) Unlink
       ((''/img'' @ ''/boot/loader/entries/'') @ ''entry.conf'') = None \<and>
   faults (full_tree ''/img'' [(''entry.conf'', File ''options quiet\<newline>'')]) OpenWrite
       ((''/img'' @ ''/boot/loader/entries/'') @ ''entry.conf'') = Some ENOSPC \<and>
   fst (append_rootwait ''/img'' (full_tree ''/img'' [(''entry.conf'', File ''options quiet\<newline>'')]))
     = Inl (OSError ENOSPC ((''/img'' @ ''/boot/loader/entries/'') @ ''entry.conf'')) \<and>
   lookup_node
       (snd (append_rootwait ''/img'' (full_tree ''/img'' [(''entry.conf'', File ''options quiet\<newline>'')])))
       ((''/img'' @ ''/boot/loader/entries/'') @ ''entry.conf'') = None \<and>
   fst (append_rootwait ''/img'' (image_tree ''/img'' [(''entry.conf'', File ''options quiet\<newline>'')]))
     = Inr () \<and>
   file_text
       (snd (append_rootwait ''/img'' (image_tree ''/img'' [(''entry.conf'', File ''options quiet\<newline>'')])))
       ((''/img'' @ ''/boot/loader/entries/'') @ ''entry.conf'') \<noteq> None"
proof -
  let ?es = "[(''entry.conf'', File ''options quiet\<newline>'')]"
  have ls: "readlines ''options quiet\<newline>'' = [''options quiet\<newline>'']"
    by (simp add: readlines_def)
  have d: "dirs (full_tree ''/img'' ?es) (''/img'' @ ''/boot/loader/entries/'') = Some ?es"
    and d': "dirs (image_tree ''/img'' ?es) (''/img'' @ ''/boot/loader/entries/'') = Some ?es"
    by (simp_all add: full_tree_def image_tree_def)
  have n: "SLASH \<notin> set ''entry.conf''" by simp
  have ne: "readlines ''options quiet\<newline>'' \<noteq> []"
    and pre: "prefix ''options '' (last (readlines ''options quiet\<newline>''))"
    by (simp_all add: ls)
  have f: "faults (full_tree ''/img'' ?es) Listdir (''/img'' @ ''/boot/loader/entries/'') = None"
      "faults (full_tree ''/img'' ?es) OpenRead ((''/img'' @ ''/boot/loader/entries/'') @ ''entry.conf'') = None"
      "faults (full_tree ''/img'' ?es) Unlink ((''/img'' @ ''/boot/loader/entries/'') @ ''entry.conf'') = None"
      "faults (full_tree ''/img'' ?es) OpenWrite ((''/img'' @ ''/boot/loader/entries/'') @ ''entry.conf'') = Some ENOSPC"
    by (simp_all add: full_tree_def image_tree_def)
  note lost = failed_open_loses_file [OF d n, of ENOSPC "()", THEN conjunct1, rule_format,
      OF conjI [OF ne conjI [OF pre conjI [OF f(1) conjI [OF f(2) conjI [OF f(3) f(4)]]]]]]
  note kept = failed_open_loses_file [OF d' n, of ENOSPC "()", THEN conjunct2, rule_format,
      OF quiet_tree_runs]
  show ?thesis
    by (intro conjI d n ne pre f lost [THEN conjunct1]
        lost [THEN conjunct2, THEN conjunct2] quiet_tree_runs kept)
qed

text \<open>
  A tree on which no file can be created: the entry file is there before the run, the run
  removes it, fails to open it for writing, and leaves nothing at its path.
\<close>

theorem file_lost_counterexample:
  "file_text (full_tree ''/img'' [(''entry.conf'', File ''options quiet\<newline>'')])
      ''/img/boot/loader/entries/entry.conf'' = Some ''options quiet\<newline>'' \<and>
   fst (append_rootwait ''/img'' (full_tree ''/img'' [(''entry.conf'', File ''options quiet\<newline>'')]))
     = Inl (OSError ENOSPC ''/img/boot/loader/entries/entry.conf'') \<and>
   calls (snd (append_rootwait ''/img''
        (full_tree ''/img'' [(''entry.conf'', File ''options quiet\<newline>'')])))
     = [(Listdir, ''/img/boot/loader/entries/''),
        (OpenRead, ''/img/boot/loader/entries/entry.conf''),
        (Unlink, ''/img/boot/loader/entries/entry.conf''),
        (OpenWrite, ''/img/boot/loader/entries/entry.conf'')] \<and>
   lookup_node
       (snd (append_rootwait ''/img''
          (full_tree ''/img'' [(''entry.conf'', File ''options quiet\<newline>'')])))
       ''/img/boot/loader/entries/entry.conf'' = None"
proof -
  let ?fs = "full_tree ''/img'' [(''entry.conf'', File ''options quiet\<newline>'')]"
  have ls: "readlines ''options quiet\<newline>'' = [''options quiet\<newline>'']"
    by (simp add: readlines_def)
  have d: "dirs ?fs (''/img'' @ ''/boot/loader/entries/'')
      = Some [(''entry.conf'', File ''options quiet\<newline>'')]"
    by (simp add: full_tree_def image_tree_def)
  have n: "SLASH \<notin> set ''entry.conf''" by simp
  have run: "append_rootwait ''/img'' ?fs =
      (Inl (OSError ENOSPC ''/img/boot/loader/entries/entry.conf''),
       ?fs\<lparr>dirs := (dirs ?fs)(''/img/boot/loader/entries/'' \<mapsto> []),
          calls := [(Listdir, ''/img/boot/loader/entries/''),
            (OpenRead, ''/img/boot/loader/entries/entry.conf''),
            (Unlink, ''/img/boot/loader/entries/entry.conf''),
            (OpenWrite, ''/img/boot/loader/entries/entry.conf'')]\<rparr>)"
    unfolding append_rootwait_single [OF d n] Let_def
    by (simp add: ls full_tree_def image_tree_def)
  have before: "file_text ?fs ''/img/boot/loader/entries/entry.conf'' = Some ''options quiet\<newline>''"
    by (simp add: file_text_def lookup_node_def dir_part_def name_part_def full_tree_def image_tree_def)
  show ?thesis
    unfolding run before
    by (simp add: lookup_node_def dir_part_def name_part_def)
qed

text \<open>
  C8. The scenario of the specification: under the root \<open>/img\<close> the entries directory
  holds the one file \<open>entry.conf\<close> with the three lines \<open>title Test\<close>,
  \<open>linux /vmlinuz\<close> and \<open>options root=/dev/sda1\<close>, each ended by a line feed.
  \<open>append_rootwait\<close> succeeds, and afterwards the file holds the same text with
  \<open>rootwait\<close> added to its last line.
\<close>

theorem scenario_img:
  "fst (append_rootwait ''/img''
          (image_tree ''/img''
             [(''entry.conf'',
               File ''title Test\<newline>linux /vmlinuz\<newline>options root=/dev/sda1\<newline>'')])) = Inr ()
   \<and> file_text
        (snd (append_rootwait ''/img''
          (image_tree ''/img''
             [(''entry.conf'',
               File ''title Test\<newline>linux /vmlinuz\<newline>options root=/dev/sda1\<newline>'')])))
        ''/img/boot/loader/entries/entry.conf''
      = Some ''title Test\<newline>linux /vmlinuz\<newline>options root=/dev/sda1 rootwait\<newline>''"
proof -
  let ?t = "''title Test\<newline>linux /vmlinuz\<newline>options root=/dev/sda1\<newline>''"
  let ?fs = "image_tree ''/img'' [(''entry.conf'', File ?t)]"
  have ls: "readlines ?t =
      [''title Test\<newline>'', ''linux /vmlinuz\<newline>'', ''options root=/dev/sda1\<newline>'']"
    by (simp add: readlines_def)
  have run: "append_rootwait ''/img'' ?fs =
    (Inr (),
     ?fs\<lparr>dirs := (dirs ?fs)(''/img'' @ ''/boot/loader/entries/'' \<mapsto>
           [(''entry.conf'', File (concat (butlast (readlines ?t) @
                [butlast (last (readlines ?t)) @ '' rootwait'' @ [LF]])))]),
        calls := calls ?fs @
          [(Listdir, ''/img'' @ ''/boot/loader/entries/''),
           (OpenRead, (''/img'' @ ''/boot/loader/entries/'') @ ''entry.conf''),
           (Unlink, (''/img'' @ ''/boot/loader/entries/'') @ ''entry.conf''),
           (OpenWrite, (''/img'' @ ''/boot/loader/entries/'') @ ''entry.conf'')]\<rparr>)"
    by (rule append_rootwait_ok) (simp_all add: image_tree_def ls)
  show ?thesis
    unfolding run by (simp add: file_text_def lookup_node_def dir_part_def name_part_def ls)
qed

text \<open>
  C9. When the entries directory holds exactly one file and that file is empty, it has no
  line, and \<open>append_rootwait\<close> fails with the \<open>IndexError\<close> of taking the last
  element of the empty list of lines: neither of the two descriptive errors of its own.
  Only the listing and the read have been called; the directory and the file are as before.
\<close>

theorem empty_entry_file:
  assumes "dirs fs (path @ ''/boot/loader/entries/'') = Some [(n, File [])]"
    and "SLASH \<notin> set n"
    and "faults fs = (\<lambda>op p. None)"
  shows "readlines [] = [] \<and>
         append_rootwait path fs =
           (Inl IndexError,
            fs\<lparr>calls := calls fs @
              [(Listdir, path @ ''/boot/loader/entries/''),
               (OpenRead, (path @ ''/boot/loader/entries/'') @ n)]\<rparr>) \<and>
         IndexError \<noteq> Exception (count_message (path @ ''/boot/loader/entries/'') [n]) \<and>
         IndexError \<noteq> Exception options_message"
  unfolding append_rootwait_single [OF assms(1,2)] Let_def
  using assms(3) by (simp add: readlines_def)

theorem empty_entry_file_witness:
  "dirs (image_tree ''/img'' [(''entry.conf'', File [])]) (''/img'' @ ''/boot/loader/entries/'')
     = Some [(''entry.conf'', File [])] \<and>
   SLASH \<notin> set ''entry.conf'' \<and>
   faults (image_tree ''/img'' [(''entry.conf'', File [])]) = (\<lambda>op p. None) \<and>
   fst (append_rootwait ''/img'' (image_tree ''/img'' [(''entry.conf'', File [])])) = Inl IndexError \<and>
   dirs (snd (append_rootwait ''/img'' (image_tree ''/img'' [(''entry.conf'', File [])])))
     = dirs (image_tree ''/img'' [(''entry.conf'', File [])])"
  using empty_entry_file [of "image_tree ''/img'' [(''entry.conf'', File [])]" "''/img''" "''entry.conf''"]
  by (simp add: image_tree_def)

text \<open>
  C10. For an entry file of exactly one line that starts with \<open>options \<close> and ends in a
  line feed, \<open>append_rootwait\<close> succeeds and the rewritten file holds the transformed
  line and nothing else: read again, it has that one line.
\<close>

theorem single_line_entry:
  assumes "dirs fs (path @ ''/boot/loader/entries/'') = Some [(n, File t)]"
    and "SLASH \<notin> set n"
    and "faults fs = (\<lambda>op p. None)"
    and "readlines t = [l]"
    and "prefix ''options '' l"
    and "last l = LF"
  shows "fst (append_rootwait path fs) = Inr () \<and>
         file_text (snd (append_rootwait path fs)) ((path @ ''/boot/loader/entries/'') @ n)
           = Some (butlast l @ '' rootwait'' @ [LF]) \<and>
         readlines (butlast l @ '' rootwait'' @ [LF]) = [butlast l @ '' rootwait'' @ [LF]]"
proof -
  have ne: "readlines t \<noteq> []" and pre: "prefix ''options '' (last (readlines t))"
    using assms(4,5) by simp_all
  have run: "fst (append_rootwait path fs) = Inr ()"
    by (simp add: append_rootwait_ok [OF assms(1,2,3) ne pre])
  from append_rootwait_returns [OF assms(1,2) run] readlines_rewritten [OF ne] run
  show ?thesis by (simp add: assms(4))
qed

theorem single_line_entry_witness:
  "dirs (image_tree ''/img'' [(''entry.conf'', File ''options quiet\<newline>'')])
       (''/img'' @ ''/boot/loader/entries/'')
     = Some [(''entry.conf'', File ''options quiet\<newline>'')] \<and>
   SLASH \<notin> set ''entry.conf'' \<and>
   faults (image_tree ''/img'' [(''entry.conf'', File ''options quiet\<newline>'')]) = (\<lambda>op p. None) \<and>
   readlines ''options quiet\<newline>'' = [''options quiet\<newline>''] \<and>
   prefix ''options '' ''options quiet\<newline>'' \<and>
   last ''options quiet\<newline>'' = LF \<and>
   fst (append_rootwait ''/img'' (image_tree ''/img'' [(''entry.conf'', File ''options quiet\<newline>'')]))
     = Inr () \<and>
   file_text (snd (append_rootwait ''/img''
        (image_tree ''/img'' [(''entry.conf'', File ''options quiet\<newline>'')])))
      ''/img/boot/loader/entries/entry.conf''
     = Some ''options quiet rootwait\<newline>''"
  using single_line_entry [of "image_tree ''/img'' [(''entry.conf'', File ''options quiet\<newline>'')]"
      "''/img''" "''entry.conf''" "''options quiet\<newline>''" "''options quiet\<newline>''"]
  by (simp add: image_tree_def readlines_def)

end
